theory Spec2Isabelle
  imports Main
begin

section \<open>Data model of \<open>lib/interfaces/RawData.js\<close>\<close>

text \<open>
  A JavaScript \<open>Date\<close> is a time value in milliseconds since the epoch, or the
  Invalid Date (time value \<open>NaN\<close>). \<open>None\<close> is the Invalid Date.
\<close>

type_synonym jsdate = "int option"

text \<open>The exceptions the class can raise, and a rejected promise of a collaborator.\<close>

datatype error = TypeError | RangeError | ReferenceError | Rejected

text \<open>RDF terms and quads as built with \<open>N3.DataFactory\<close>.\<close>

datatype rdfterm = NamedNode string | Literal string | BoolLiteral bool

datatype quad = Quad (subject: rdfterm) (predicate: rdfterm) (object: rdfterm) (graph: rdfterm)

type_synonym prefixes = "(string \<times> string) list"

text \<open>
  The collaborators of the class that are not part of it (\<open>lib/Utils\<close>, \<open>md5\<close>,
  the methods of \<open>Date\<close>) are parameters of the model. A collaborator that returns a
  promise which can reject returns \<open>None\<close> when it does.
\<close>

record ext =
  getGeneratedAtTimeValue :: "string \<Rightarrow> jsdate option"
  getTriplesFromString :: "string \<Rightarrow> quad list option"
  getTriplesFromFile :: "string \<Rightarrow> (prefixes \<times> quad list) option"
  formatTriples :: "prefixes \<Rightarrow> quad list \<Rightarrow> string"
  md5 :: "string \<Rightarrow> string"
  newDate :: "string option \<Rightarrow> jsdate"
  toISOString :: "int \<Rightarrow> string"
  toUTCString :: "jsdate \<Rightarrow> string"

text \<open>The fields of \<open>config\<close> (and \<open>commMan.config.serverUrl\<close>) that the class reads.\<close>

record config =
  serverUrl :: string
  name :: string
  websocket :: bool
  fragmentsPath :: string
  maxFileSize :: nat
  latestWindowsize :: nat
  license :: string

text \<open>An element of \<open>_latest\<close>, as \<open>init\<close> pushes it.\<close>

record entry =
  data :: string
  triples :: "quad list"
  triplesTrig :: string
  gat :: jsdate

text \<open>
  The mutable fields of a \<open>RawData\<close> instance, together with what it writes to: the
  files on disk (path to content), the appends that \<open>storeData\<close> has handed to
  \<open>Utils.appendToFile\<close> and that have not completed yet (path and payload, in the order
  of the calls), and the messages handed to \<open>commMan.pushData\<close> (stream name and
  payload, oldest first).
\<close>

record state =
  byteCounter :: nat
  lastFragment :: "string option"
  latest :: "entry list"
  latestTrig :: string
  staticTriples :: string
  prevEtag :: string
  prevResponseBody :: string
  files :: "string \<rightharpoonup> string"
  pending :: "(string \<times> string) list"
  pushed :: "(string \<times> string) list"

text \<open>The state the constructor leaves: \<open>lastFragment\<close> is not assigned there.\<close>

definition newRawData :: state where
  "newRawData =
     \<lparr>byteCounter = 0, lastFragment = None, latest = [], latestTrig = [],
      staticTriples = [], prevEtag = [], prevResponseBody = [],
      files = Map.empty, pending = [], pushed = []\<rparr>"

definition baseUri :: "config \<Rightarrow> string" where
  "baseUri c = serverUrl c @ name c @ ''/fragments''"

section \<open>The Fragment Writer: \<open>storeData\<close>\<close>

text \<open>
  \<open>storeData\<close> is an \<open>async\<close> function with one \<open>await\<close>, on line 177. A call runs
  lines 171 to 177 at once, up to the point where the append has been handed to
  \<open>Utils.appendToFile\<close>, and returns a promise; lines 178 and 179 run later, when the
  append has completed. Other code of the instance can run in between, so the model has
  one function for each part.
\<close>

text \<open>
  \<open>Utils.appendToFile\<close>: the file is created when it does not exist. A failure of the
  disk is not part of the model.
\<close>

definition appendToFile :: "(string \<rightharpoonup> string) \<Rightarrow> string \<Rightarrow> string \<Rightarrow> (string \<rightharpoonup> string)" where
  "appendToFile fs f d = fs(f \<mapsto> (case fs f of None \<Rightarrow> d | Some old \<Rightarrow> old @ d))"

text \<open>The path of the fragment named by a time value (line 173).\<close>

definition fragmentFile :: "ext \<Rightarrow> config \<Rightarrow> int \<Rightarrow> string" where
  "fragmentFile x c t = fragmentsPath c @ ''/'' @ toISOString x t @ ''.trig''"

text \<open>
  Line 177 up to the \<open>await\<close>: the append is issued with the value that
  \<open>lastFragment\<close> has at that moment. Appending to an undefined path fails, and the
  rest of \<open>storeData\<close> does not run.
\<close>

definition issueAppend :: "state \<Rightarrow> string \<Rightarrow> error + state" where
  "issueAppend s d =
     (case lastFragment s of
        None \<Rightarrow> Inl TypeError
      | Some f \<Rightarrow> Inr (s\<lparr>pending := pending s @ [(f, d)]\<rparr>))"

text \<open>
  \<open>storeData\<close>, the part that runs when it is called (lines 171 to 177).
  \<open>toISOString\<close> of the Invalid Date raises a RangeError before \<open>lastFragment\<close> is
  assigned, so an error leaves the state as it was.
\<close>

definition storeData :: "ext \<Rightarrow> config \<Rightarrow> state \<Rightarrow> string \<Rightarrow> jsdate \<Rightarrow> error + state" where
  "storeData x c s d g =
     (if byteCounter s = 0 \<or> byteCounter s > maxFileSize c then
        (case g of
           None \<Rightarrow> Inl RangeError
         | Some t \<Rightarrow>
             issueAppend (s\<lparr>lastFragment := Some (fragmentFile x c t), byteCounter := 0\<rparr>) d)
      else issueAppend s d)"

text \<open>
  \<open>storeData\<close>, the part that runs when an append has completed (lines 178 and 179),
  for the append at position \<open>n\<close> of the pending ones: the payload is in the file, and
  the byte counter grows by its byte length. The payload is a string of bytes, so its
  byte length is its length.
\<close>

definition storeData_resume :: "state \<Rightarrow> nat \<Rightarrow> state" where
  "storeData_resume s n =
     (if n < length (pending s) then
        (case pending s ! n of
           (f, d) \<Rightarrow>
             s\<lparr>files := appendToFile (files s) f d,
               byteCounter := byteCounter s + length d,
               pending := take n (pending s) @ drop (Suc n) (pending s)\<rparr>)
      else s)"

text \<open>
  \<open>init\<close> calls \<open>storeData\<close> without awaiting it (line 77): the call runs up to its
  \<open>await\<close> and \<open>init\<close> goes on, and a failure there is a rejected promise that nobody
  observes.
\<close>

definition storeDetached :: "ext \<Rightarrow> config \<Rightarrow> state \<Rightarrow> string \<Rightarrow> jsdate \<Rightarrow> state" where
  "storeDetached x c s d g = (case storeData x c s d g of Inl _ \<Rightarrow> s | Inr s' \<Rightarrow> s')"

section \<open>The Ingestion Window: \<open>init\<close> and \<open>onData\<close>\<close>

text \<open>Lines 62 to 67: \<open>this._latest.push(...)\<close>.\<close>

definition windowPush :: "state \<Rightarrow> entry \<Rightarrow> state" where
  "windowPush s e = s\<lparr>latest := latest s @ [e]\<rparr>"

text \<open>Lines 70 to 72: the push to the subscribed clients.\<close>

definition notifySubscribers :: "config \<Rightarrow> state \<Rightarrow> string \<Rightarrow> state" where
  "notifySubscribers c s d =
     (if websocket c then s\<lparr>pushed := pushed s @ [(name c, staticTriples s @ d)]\<rparr> else s)"

text \<open>
  Lines 75 to 78. \<open>Array.prototype.pop\<close> removes and returns the last element of the
  array; the array is not empty here, since its length exceeds a natural number.
\<close>

definition evictIfFull :: "ext \<Rightarrow> config \<Rightarrow> state \<Rightarrow> state" where
  "evictIfFull x c s =
     (if length (latest s) > latestWindowsize c then
        (let ev = last (latest s);
             s' = s\<lparr>latest := butlast (latest s)\<rparr>
         in storeDetached x c s' (data ev) (gat ev))
      else s)"

text \<open>Lines 80 to 84: the concatenation of the windowed entries, each after a newline.\<close>

definition rebuildLatestTrig :: "state \<Rightarrow> state" where
  "rebuildLatestTrig s =
     s\<lparr>latestTrig := concat (map (\<lambda>e. CHR 0x0A # triplesTrig e) (latest s))\<rparr>"

text \<open>
  \<open>init\<close>. The three awaited collaborators run first and do not touch the instance;
  when one of them rejects, \<open>init\<close> rejects and the state is unchanged. From the push on
  line 62 to the end there is no \<open>await\<close>, so the rest of \<open>init\<close> runs in one piece.
\<close>

definition init :: "ext \<Rightarrow> config \<Rightarrow> state \<Rightarrow> string \<Rightarrow> error + state" where
  "init x c s d =
     (case getGeneratedAtTimeValue x d of
        None \<Rightarrow> Inl Rejected
      | Some g \<Rightarrow>
          (case getTriplesFromString x d of
             None \<Rightarrow> Inl Rejected
           | Some qs \<Rightarrow>
               (let e = \<lparr>data = d, triples = qs, triplesTrig = formatTriples x [] qs, gat = g\<rparr>;
                    s1 = windowPush s e;
                    s2 = notifySubscribers c s1 d;
                    s3 = evictIfFull x c s2
                in Inr (rebuildLatestTrig s3))))"

text \<open>
  What happens to an instance, one event at a time: a record reaches the synchronous
  part of its \<open>init\<close> (a record whose \<open>init\<close> rejects changes nothing), or one of the
  pending appends completes and its \<open>storeData\<close> resumes. A schedule is a list of such
  events, in any order.
\<close>

datatype event = Arrive string | Written nat

fun step :: "ext \<Rightarrow> config \<Rightarrow> state \<Rightarrow> event \<Rightarrow> state" where
  "step x c s (Arrive d) = (case init x c s d of Inl _ \<Rightarrow> s | Inr s' \<Rightarrow> s')"
| "step x c s (Written n) = storeData_resume s n"

fun run :: "ext \<Rightarrow> config \<Rightarrow> state \<Rightarrow> event list \<Rightarrow> state" where
  "run x c s [] = s"
| "run x c s (ev # evs) = run x c (step x c s ev) evs"

text \<open>
  \<open>onData\<close> on an array: \<open>forEach\<close> starts an \<open>init\<close> for every record without
  awaiting any (lines 49 to 51). Every \<open>init\<close> passes the same three awaits, which
  complete without the disk, so the records reach the window in the order of the array,
  and the appends that their evictions issue are still pending when the last of them has
  been processed. Other orders are other schedules of \<open>run\<close>.
\<close>

definition onData :: "ext \<Rightarrow> config \<Rightarrow> state \<Rightarrow> string list \<Rightarrow> state" where
  "onData x c s ds = run x c s (map Arrive ds)"

section \<open>Fragment names\<close>

text \<open>
  \<open>String.prototype.indexOf\<close>: the position of the first occurrence of the pattern,
  or \<open>-1\<close> when there is none.
\<close>

fun indexOfFrom :: "string \<Rightarrow> string \<Rightarrow> nat \<Rightarrow> int" where
  "indexOfFrom [] pat i = (if pat = [] then int i else - 1)"
| "indexOfFrom (ch # rest) pat i =
     (if take (length pat) (ch # rest) = pat then int i else indexOfFrom rest pat (Suc i))"

definition indexOf :: "string \<Rightarrow> string \<Rightarrow> int" where
  "indexOf s pat = indexOfFrom s pat 0"

text \<open>
  \<open>s.substring(0, k)\<close>: a negative end counts as 0 and an end beyond the string as its
  length.
\<close>

definition substring0 :: "string \<Rightarrow> int \<Rightarrow> string" where
  "substring0 s k = take (nat k) s"

text \<open>
  \<open>f.substring(0, f.indexOf('.trig'))\<close> (lines 138 and 254): a fragment's file name
  without its extension.
\<close>

definition fragmentName :: "string \<Rightarrow> string" where
  "fragmentName f = substring0 f (indexOf f ''.trig'')"

section \<open>The Fragment Directory Index\<close>

text \<open>
  \<open>Utils.getAllFragments(this.fragmentsPath)\<close> is the listing of the fragment
  directory. The handlers take its value as a parameter, \<open>dir\<close>, a list of file names.
\<close>

text \<open>
  Modelled from the spec: \<open>Utils.getFragmentsCount\<close> is defined in \<open>lib/Utils.js\<close>,
  which is not among the sources. Section 4.3 of the specification: count() returns the
  number of fragments.
\<close>

definition getFragmentsCount :: "string list \<Rightarrow> nat" where
  "getFragmentsCount dir = length dir"

text \<open>
  The comparison \<open>a <= b\<close> of two JavaScript numbers, each an integer or \<open>NaN\<close>: false
  when either is \<open>NaN\<close>.
\<close>

definition js_le :: "int option \<Rightarrow> int option \<Rightarrow> bool" where
  "js_le a b = (case (a, b) of (Some m, Some n) \<Rightarrow> m \<le> n | _ \<Rightarrow> False)"

text \<open>The comparison \<open>a < b\<close>, likewise.\<close>

definition js_lt :: "int option \<Rightarrow> int option \<Rightarrow> bool" where
  "js_lt a b = (case (a, b) of (Some m, Some n) \<Rightarrow> m < n | _ \<Rightarrow> False)"

text \<open>
  Modelled from the spec: \<open>Utils.dateBinarySearch\<close> is defined in \<open>lib/Utils.js\<close>,
  which is not among the sources. Section 4.3 of the specification: locate(queryTime)
  performs a binary search over the ascending timestamp sequence and returns the fragment
  whose timestamp is the greatest value at most queryTime, and its zero-based index in the
  sorted sequence; if queryTime is before the earliest fragment, the result is the
  earliest fragment (index 0).

  \<open>bsearch t fs lo hi\<close> halves the interval from \<open>lo\<close> (a position whose timestamp is
  at most \<open>t\<close>) to \<open>hi\<close> (a position whose timestamp is beyond \<open>t\<close>, or the length)
  until one position is left. The specification defines no result for an empty sequence:
  that is \<open>None\<close>. The caller destructures the result as a \<open>Date\<close> and an index
  (line 139), which raises a TypeError when there is no result.
\<close>

function bsearch :: "int \<Rightarrow> int option list \<Rightarrow> nat \<Rightarrow> nat \<Rightarrow> nat" where
  "bsearch t fs lo hi =
     (if hi \<le> Suc lo then lo
      else if js_le (fs ! ((lo + hi) div 2)) (Some t) then bsearch t fs ((lo + hi) div 2) hi
      else bsearch t fs lo ((lo + hi) div 2))"
  by pat_completeness auto
termination
  by (relation "measure (\<lambda>(t, fs, lo, hi). hi - lo)") auto

declare bsearch.simps [simp del]

definition dateBinarySearch :: "int \<Rightarrow> int option list \<Rightarrow> (jsdate \<times> nat) option" where
  "dateBinarySearch target fragments =
     (if fragments = [] then None
      else if js_lt (Some target) (fragments ! 0) then Some (fragments ! 0, 0)
      else Some (fragments ! bsearch target fragments 0 (length fragments),
                 bsearch target fragments 0 (length fragments)))"

section \<open>The Pagination Metadata Generator: \<open>createMetadata\<close>\<close>

definition hydra :: "string \<Rightarrow> string" where
  "hydra l = ''http://www.w3.org/ns/hydra/core#'' @ l"

definition rdfType :: string where
  "rdfType = ''http://www.w3.org/1999/02/22-rdf-syntax-ns#type''"

definition metadataGraph :: rdfterm where
  "metadataGraph = NamedNode ''#Metadata''"

text \<open>Lines 186 to 240: the eight quads of the Hydra search template.\<close>

definition searchTemplate :: "config \<Rightarrow> string \<Rightarrow> quad list" where
  "searchTemplate c subj =
     [Quad (NamedNode subj) (NamedNode (hydra ''search''))
        (NamedNode (subj @ ''#search'')) metadataGraph,
      Quad (NamedNode (subj @ ''#search'')) (NamedNode rdfType)
        (NamedNode (hydra ''IriTemplate'')) metadataGraph,
      Quad (NamedNode (subj @ ''#search'')) (NamedNode (hydra ''template''))
        (Literal (baseUri c @ ''{?time}'')) metadataGraph,
      Quad (NamedNode (subj @ ''#search'')) (NamedNode (hydra ''variableRepresentation''))
        (NamedNode (hydra ''BasicRepresentation'')) metadataGraph,
      Quad (NamedNode (subj @ ''#search'')) (NamedNode (hydra ''mapping''))
        (NamedNode (subj @ ''#mapping'')) metadataGraph,
      Quad (NamedNode (subj @ ''#mapping'')) (NamedNode rdfType)
        (NamedNode (hydra ''IriTemplateMapping'')) metadataGraph,
      Quad (NamedNode (subj @ ''#mapping'')) (NamedNode (hydra ''variable''))
        (Literal ''time'') metadataGraph,
      Quad (NamedNode (subj @ ''#mapping'')) (NamedNode (hydra ''required''))
        (BoolLiteral True) metadataGraph]"

text \<open>Lines 242 to 249.\<close>

definition licenseQuads :: "config \<Rightarrow> string \<Rightarrow> quad list" where
  "licenseQuads c subj =
     (if license c \<noteq> [] then
        [Quad (NamedNode subj) (NamedNode ''http://creativecommons.org/ns#license'')
           (NamedNode (license c)) metadataGraph]
      else [])"

text \<open>The \<open>hydra:previous\<close> quad of lines 256 to 261, for the name \<open>previous\<close>.\<close>

definition previousQuad :: "config \<Rightarrow> string \<Rightarrow> string \<Rightarrow> quad" where
  "previousQuad c subj previous =
     Quad (NamedNode subj) (NamedNode (hydra ''previous''))
       (NamedNode (serverUrl c @ name c @ ''/fragments?time='' @ previous)) metadataGraph"

text \<open>
  The quads \<open>createMetadata\<close> collects. \<open>fragments[index - 1]\<close> beyond the listing is
  \<open>undefined\<close>, and \<open>undefined.substring\<close> raises a TypeError.
\<close>

definition createMetadataQuads :: "config \<Rightarrow> string list \<Rightarrow> string \<Rightarrow> int \<Rightarrow> error + quad list" where
  "createMetadataQuads c dir subj index =
     (let quads = searchTemplate c subj @ licenseQuads c subj
      in if index > 0 then
           (if nat (index - 1) < length dir then
              Inr (quads @ [previousQuad c subj (fragmentName (dir ! nat (index - 1)))])
            else Inl TypeError)
         else Inr quads)"

definition createMetadata :: "ext \<Rightarrow> config \<Rightarrow> string list \<Rightarrow> string \<Rightarrow> int \<Rightarrow> error + string" where
  "createMetadata x c dir subj index =
     (case createMetadataQuads c dir subj index of
        Inl e \<Rightarrow> Inl e
      | Inr quads \<Rightarrow> Inr (formatTriples x [] quads))"

section \<open>The HTTP handlers of \<open>setupPollInterfaces\<close>\<close>

text \<open>
  The response of the router's context: the status, the header fields and the body.
  A context starts with status 404 and no body; assigning a body without a status
  assigned before makes the status 200. Of \<open>ctx.redirect(url)\<close> the model keeps the
  \<open>Location\<close> field and the status.
\<close>

record response =
  status :: nat
  headers :: "string \<rightharpoonup> string"
  body :: "string option"

definition corsResponse :: response where
  "corsResponse =
     \<lparr>status = 404, headers = [''Access-Control-Allow-Origin'' \<mapsto> ''*''], body = None\<rparr>"

definition redirect :: "response \<Rightarrow> string \<Rightarrow> response" where
  "redirect r url = r\<lparr>status := 302, headers := (headers r)(''Location'' \<mapsto> url)\<rparr>"

definition fragmentsUrl :: "config \<Rightarrow> string \<Rightarrow> string" where
  "fragmentsUrl c time = ''/'' @ name c @ ''/fragments?time='' @ time"

definition cacheImmutable :: string where
  "cacheImmutable = ''public, max-age=31536000, inmutable''"

definition cacheNever :: string where
  "cacheNever = ''no-cache, no-store, must-revalidate''"

text \<open>
  The handler of \<open>GET /<name>/fragments\<close> (lines 127 to 167), for the query parameter
  \<open>time\<close> (\<open>None\<close> when it is missing) at the time \<open>now\<close>. The handler assigns no
  field of the instance and writes no file, so its only result is the response.
  When the fragment's time is \<open>NaN\<close>, \<open>queryTime.getTime() !== fragment.getTime()\<close>
  holds and \<open>toISOString\<close> of that date raises a RangeError (line 144).
\<close>

definition fragmentsHandler ::
    "ext \<Rightarrow> config \<Rightarrow> state \<Rightarrow> string list \<Rightarrow> int \<Rightarrow> string option \<Rightarrow> error + response" where
  "fragmentsHandler x c s dir now time =
     (case newDate x time of
        None \<Rightarrow> Inr (redirect corsResponse (fragmentsUrl c (toISOString x now)))
      | Some queryTime \<Rightarrow>
          (let fragments = map (\<lambda>f. newDate x (Some (fragmentName f))) dir
           in case dateBinarySearch queryTime fragments of
                None \<Rightarrow> Inl TypeError
              | Some (fragment, index) \<Rightarrow>
                  (case fragment of
                     None \<Rightarrow> Inl RangeError
                   | Some b \<Rightarrow>
                       if queryTime \<noteq> b then
                         Inr (redirect corsResponse (fragmentsUrl c (toISOString x b)))
                       else
                         (let fc = getFragmentsCount dir
                          in case getTriplesFromFile x
                                    (fragmentsPath c @ ''/'' @ toISOString x b @ ''.trig'') of
                               None \<Rightarrow> Inl Rejected
                             | Some (pf, ft) \<Rightarrow>
                                 (let fragmentTriples = formatTriples x pf ft;
                                      uri = baseUri c @ ''?time='' @ toISOString x b
                                  in case createMetadata x c dir uri (int index) of
                                       Inl e \<Rightarrow> Inl e
                                     | Inr metaData \<Rightarrow>
                                         Inr (corsResponse
                                           \<lparr>status := 200,
                                            headers := (headers corsResponse)
                                              (''Content-Type'' \<mapsto> ''application/trig'',
                                               ''Cache-Control'' \<mapsto>
                                                  (if int index < int fc - 1 then cacheImmutable
                                                   else cacheNever)),
                                            body := Some (staticTriples s
                                                      @ (CHR 0x0A # fragmentTriples)
                                                      @ (CHR 0x0A # metaData))\<rparr>))))))"

text \<open>
  The handler of \<open>GET /<name>/latest\<close> (lines 91 to 124), for the request's
  \<open>If-None-Match\<close> field. It assigns \<open>_prevEtag\<close> and \<open>_prevResponseBody\<close>, so it
  returns the state as well. Line 105 reads \<open>prevResponse\<close>, a name that is declared
  nowhere: evaluating it raises a ReferenceError.
\<close>

definition latestHandler ::
    "ext \<Rightarrow> config \<Rightarrow> state \<Rightarrow> string list \<Rightarrow> string option \<Rightarrow> error + response \<times> state" where
  "latestHandler x c s dir ifNoneMatchHeader =
     (if length (latest s) = 0 then
        Inr (corsResponse\<lparr>status := 404, body := Some ''No data found''\<rparr>, s)
      else
        (let etag = ''W/'' @ [CHR 0x22] @ md5 x (data (last (latest s))) @ [CHR 0x22];
             last_modified = toUTCString x (gat (last (latest s)))
         in if (case ifNoneMatchHeader of None \<Rightarrow> False | Some h \<Rightarrow> h \<noteq> [] \<and> h = etag) then
              Inr (corsResponse\<lparr>status := 304\<rparr>, s)
            else if etag = prevEtag s then Inl ReferenceError
            else
              (let uri = baseUri c @ ''/latest'';
                   index = int (length dir)
               in case createMetadata x c dir uri index of
                    Inl e \<Rightarrow> Inl e
                  | Inr metadata \<Rightarrow>
                      (let s' = s\<lparr>prevResponseBody :=
                                     staticTriples s @ (CHR 0x0A # latestTrig s)
                                       @ (CHR 0x0A # metadata),
                                   prevEtag := etag\<rparr>
                       in Inr (corsResponse
                                 \<lparr>status := 200,
                                  headers := (headers corsResponse)
                                    (''ETag'' \<mapsto> etag,
                                     ''Last-Modified'' \<mapsto> last_modified,
                                     ''Content-Type'' \<mapsto> ''application/trig''),
                                  body := Some (prevResponseBody s')\<rparr>, s')))))"

text \<open>Whether the outcome of a request is a redirect.\<close>

definition isRedirect :: "error + response \<Rightarrow> bool" where
  "isRedirect res = (case res of Inl e \<Rightarrow> False | Inr r \<Rightarrow> status r = 302)"

section \<open>Sample collaborators and configuration\<close>

text \<open>
  Concrete collaborators for evaluating the model: \<open>sample_iso\<close> and \<open>sample_parse\<close>
  agree with \<open>Date.prototype.toISOString\<close> and the \<open>Date\<close> constructor on the times
  and strings they list; a payload is its own digest, and formatting yields the empty
  string.
\<close>

definition sample_iso :: "int \<Rightarrow> string" where
  "sample_iso t =
     (if t = 0 then ''1970-01-01T00:00:00.000Z''
      else if t = 1000 then ''1970-01-01T00:00:01.000Z''
      else if t = 2000 then ''1970-01-01T00:00:02.000Z''
      else ''1970-01-01T00:00:03.000Z'')"

definition sample_parse :: "string option \<Rightarrow> jsdate" where
  "sample_parse q =
     (if q = Some ''1970-01-01T00:00:00.000Z'' then Some 0
      else if q = Some ''1970-01-01T00:00:01.000Z'' then Some 1000
      else if q = Some ''1970-01-01T00:00:01.500Z'' then Some 1500
      else if q = Some ''1970-01-01T00:00:02.000Z'' then Some 2000
      else if q = Some ''1970-01-01T00:00:03.000Z'' then Some 3000
      else None)"

definition sample_gat :: "string \<Rightarrow> jsdate option" where
  "sample_gat d =
     (if d = ''a'' then Some (Some 0)
      else if d = ''b'' then Some (Some 1000)
      else if d = ''c'' then Some (Some 2000)
      else None)"

definition sample_ext :: ext where
  "sample_ext =
     \<lparr>getGeneratedAtTimeValue = sample_gat,
      getTriplesFromString = (\<lambda>d. Some []),
      getTriplesFromFile = (\<lambda>p. Some ([], [])),
      formatTriples = (\<lambda>pf qs. []),
      md5 = (\<lambda>d. d),
      newDate = sample_parse,
      toISOString = sample_iso,
      toUTCString = (\<lambda>g. [])\<rparr>"

definition sample_cfg :: config where
  "sample_cfg =
     \<lparr>serverUrl = ''http://h/'', name = ''s'', websocket = False, fragmentsPath = ''f'',
      maxFileSize = 10, latestWindowsize = 1, license = []\<rparr>"

definition sample_dir :: "string list" where
  "sample_dir =
     [''1970-01-01T00:00:00.000Z.trig'', ''1970-01-01T00:00:01.000Z.trig'',
      ''1970-01-01T00:00:02.000Z.trig'']"

lemmas sample_defs = sample_ext_def sample_cfg_def sample_gat_def sample_iso_def
  sample_parse_def sample_dir_def

lemmas init_defs = onData_def init_def windowPush_def notifySubscribers_def evictIfFull_def
  rebuildLatestTrig_def storeDetached_def storeData_def issueAppend_def storeData_resume_def
  appendToFile_def fragmentFile_def newRawData_def

lemmas name_defs = fragmentName_def indexOf_def substring0_def

lemmas handler_defs = fragmentsHandler_def createMetadata_def createMetadataQuads_def
  searchTemplate_def licenseQuads_def previousQuad_def dateBinarySearch_def bsearch.simps
  getFragmentsCount_def corsResponse_def redirect_def fragmentsUrl_def baseUri_def hydra_def
  rdfType_def metadataGraph_def isRedirect_def cacheNever_def cacheImmutable_def

section \<open>The window under ingestion\<close>

lemma storeDetached_latest: "latest (storeDetached x c s d g) = latest s"
  by (simp add: storeDetached_def storeData_def issueAppend_def split: option.splits)

lemma storeData_resume_latest: "latest (storeData_resume s n) = latest s"
  by (simp add: storeData_resume_def split: prod.splits)

lemma evictIfFull_latest:
  "latest (evictIfFull x c s) =
     (if length (latest s) > latestWindowsize c then butlast (latest s) else latest s)"
  by (simp add: evictIfFull_def Let_def storeDetached_latest)

lemma notifySubscribers_latest: "latest (notifySubscribers c s d) = latest s"
  by (simp add: notifySubscribers_def)

text \<open>What \<open>init\<close> does to the window: a full window stays as it is.\<close>

lemma init_latest:
  "init x c s d = Inr s' \<Longrightarrow>
     latest s' =
       (if length (latest s) \<ge> latestWindowsize c then latest s
        else latest s @ [\<lparr>data = d, triples = the (getTriplesFromString x d),
               triplesTrig = formatTriples x [] (the (getTriplesFromString x d)),
               gat = the (getGeneratedAtTimeValue x d)\<rparr>])"
  by (auto simp: init_def Let_def rebuildLatestTrig_def evictIfFull_latest
       notifySubscribers_latest windowPush_def split: option.splits)

lemma step_bound:
  "length (latest s) \<le> latestWindowsize c \<Longrightarrow>
     length (latest (step x c s ev)) \<le> latestWindowsize c"
proof (cases ev)
  case (Arrive d)
  assume b: "length (latest s) \<le> latestWindowsize c"
  show ?thesis
  proof (cases "init x c s d")
    case (Inl e)
    with Arrive b show ?thesis by simp
  next
    case (Inr s')
    from init_latest [OF Inr] b have "length (latest s') \<le> latestWindowsize c" by auto
    with Arrive Inr show ?thesis by simp
  qed
next
  case (Written n)
  assume "length (latest s) \<le> latestWindowsize c"
  with Written show ?thesis by (simp add: storeData_resume_latest)
qed

lemma run_bound:
  "length (latest s) \<le> latestWindowsize c \<Longrightarrow>
     length (latest (run x c s evs)) \<le> latestWindowsize c"
proof (induction evs arbitrary: s)
  case Nil
  then show ?case by simp
next
  case (Cons ev evs)
  from Cons.prems have "length (latest (step x c s ev)) \<le> latestWindowsize c"
    by (rule step_bound)
  from Cons.IH [OF this] show ?case by simp
qed

lemma step_full:
  "length (latest s) = latestWindowsize c \<Longrightarrow> latest (step x c s ev) = latest s"
proof (cases ev)
  case (Arrive d)
  assume f: "length (latest s) = latestWindowsize c"
  show ?thesis
  proof (cases "init x c s d")
    case (Inl e)
    with Arrive show ?thesis by simp
  next
    case (Inr s')
    from init_latest [OF Inr] f have "latest s' = latest s" by simp
    with Arrive Inr show ?thesis by simp
  qed
next
  case (Written n)
  then show ?thesis by (simp add: storeData_resume_latest)
qed

lemma run_full:
  "length (latest s) = latestWindowsize c \<Longrightarrow> latest (run x c s evs) = latest s"
proof (induction evs arbitrary: s)
  case Nil
  then show ?case by simp
next
  case (Cons ev evs)
  from Cons.prems have l: "latest (step x c s ev) = latest s" by (rule step_full)
  with Cons.prems have "length (latest (step x c s ev)) = latestWindowsize c" by simp
  from Cons.IH [OF this] l show ?case by simp
qed

lemma init_full:
  assumes "length (latest s) = latestWindowsize c"
    and "getGeneratedAtTimeValue x d = Some g" and "getTriplesFromString x d = Some qs"
  shows "init x c s d =
           Inr (rebuildLatestTrig (storeDetached x c (notifySubscribers c s d) d g))"
proof -
  let ?e = "\<lparr>data = d, triples = qs, triplesTrig = formatTriples x [] qs, gat = g\<rparr>"
  let ?s2 = "notifySubscribers c (windowPush s ?e) d"
  have l2: "latest ?s2 = latest s @ [?e]"
    by (simp add: notifySubscribers_latest windowPush_def)
  have drop: "?s2\<lparr>latest := latest s\<rparr> = notifySubscribers c s d"
    by (simp add: notifySubscribers_def windowPush_def)
  have "evictIfFull x c ?s2 = storeDetached x c (notifySubscribers c s d) d g"
    using assms(1) by (simp add: evictIfFull_def l2 drop)
  then show ?thesis using assms(2,3) by (simp add: init_def)
qed

lemma sample_a:
  "onData sample_ext sample_cfg newRawData [''a''] =
     newRawData\<lparr>latest := [\<lparr>data = ''a'', triples = [], triplesTrig = [], gat = Some 0\<rparr>],
       latestTrig := [CHR 0x0A]\<rparr>"
  by (simp add: sample_defs init_defs)

section \<open>The binary search\<close>

lemma js_le_Some [simp]: "js_le (Some m) (Some n) = (m \<le> n)"
  by (simp add: js_le_def)

lemma js_lt_Some [simp]: "js_lt (Some m) (Some n) = (m < n)"
  by (simp add: js_lt_def)

text \<open>The search stays inside the interval it is given.\<close>

lemma bsearch_range: "lo < hi \<Longrightarrow> lo \<le> bsearch t fs lo hi \<and> bsearch t fs lo hi < hi"
proof (induction t fs lo hi rule: bsearch.induct)
  case (1 t fs lo hi)
  show ?case
  proof (cases "hi \<le> Suc lo")
    case True
    with "1.prems" show ?thesis by (simp add: bsearch.simps)
  next
    case False
    then have mid: "lo < (lo + hi) div 2" "(lo + hi) div 2 < hi" by linarith+
    show ?thesis
    proof (cases "js_le (fs ! ((lo + hi) div 2)) (Some t)")
      case True
      with False "1.IH"(1) mid have
        "(lo + hi) div 2 \<le> bsearch t fs ((lo + hi) div 2) hi \<and>
         bsearch t fs ((lo + hi) div 2) hi < hi"
        by simp
      moreover have "bsearch t fs lo hi = bsearch t fs ((lo + hi) div 2) hi"
        using False True by (subst bsearch.simps) simp
      ultimately show ?thesis using mid by simp
    next
      case notle: False
      with False "1.IH"(2) mid have
        "lo \<le> bsearch t fs lo ((lo + hi) div 2) \<and>
         bsearch t fs lo ((lo + hi) div 2) < (lo + hi) div 2"
        by simp
      moreover have "bsearch t fs lo hi = bsearch t fs lo ((lo + hi) div 2)"
        using False notle by (subst bsearch.simps) simp
      ultimately show ?thesis using mid by simp
    qed
  qed
qed

text \<open>
  On valid timestamps the search keeps the query time between the timestamp at \<open>lo\<close> and
  the one at \<open>hi\<close>, so the position it returns has the query time between its own
  timestamp and the next one.
\<close>

lemma bsearch_bracket:
  "lo < hi \<Longrightarrow> hi \<le> length bs \<Longrightarrow> bs ! lo \<le> t \<Longrightarrow> (hi < length bs \<longrightarrow> t < bs ! hi) \<Longrightarrow>
     bs ! bsearch t (map Some bs) lo hi \<le> t \<and>
     (Suc (bsearch t (map Some bs) lo hi) < length bs \<longrightarrow>
        t < bs ! Suc (bsearch t (map Some bs) lo hi))"
proof (induction t "map Some bs" lo hi rule: bsearch.induct)
  case (1 t lo hi)
  let ?mid = "(lo + hi) div 2"
  show ?case
  proof (cases "hi \<le> Suc lo")
    case True
    with "1.prems" have "hi = Suc lo" by simp
    moreover have "bsearch t (map Some bs) lo hi = lo"
      using True by (subst bsearch.simps) simp
    ultimately show ?thesis using "1.prems" by simp
  next
    case False
    then have mid: "lo < ?mid" "?mid < hi" by linarith+
    with "1.prems" have midlen: "?mid < length bs" by simp
    then have nth: "map Some bs ! ?mid = Some (bs ! ?mid)" by simp
    show ?thesis
    proof (cases "bs ! ?mid \<le> t")
      case True
      then have le: "js_le (map Some bs ! ?mid) (Some t)" using nth by simp
      have eq: "bsearch t (map Some bs) lo hi = bsearch t (map Some bs) ?mid hi"
        using False le by (subst bsearch.simps) simp
      from "1.hyps"(1) [OF False le mid(2) "1.prems"(2) True "1.prems"(4)]
      show ?thesis unfolding eq .
    next
      case notle: False
      then have nle: "\<not> js_le (map Some bs ! ?mid) (Some t)" using nth by simp
      have eq: "bsearch t (map Some bs) lo hi = bsearch t (map Some bs) lo ?mid"
        using False nle by (subst bsearch.simps) simp
      have "?mid \<le> length bs" using midlen by simp
      moreover have "?mid < length bs \<longrightarrow> t < bs ! ?mid" using notle by simp
      ultimately show ?thesis
        unfolding eq using "1.hyps"(2) [OF False nle mid(1) _ "1.prems"(3)] by blast
    qed
  qed
qed

lemma sorted_wrt_less_nth:
  "sorted_wrt (<) (bs :: int list) \<Longrightarrow> i < j \<Longrightarrow> j < length bs \<Longrightarrow> bs ! i < bs ! j"
  by (simp add: sorted_wrt_iff_nth_less)

lemma greatest_below:
  assumes srt: "sorted_wrt (<) (bs :: int list)"
    and i: "i < length bs" and le: "bs ! i \<le> t"
    and nxt: "Suc i < length bs \<longrightarrow> t < bs ! Suc i"
    and b: "b \<in> set bs" and bt: "b \<le> t"
  shows "b \<le> bs ! i"
proof -
  from b obtain j where j: "j < length bs" "b = bs ! j" by (auto simp: in_set_conv_nth)
  show ?thesis
  proof (cases "j \<le> i")
    case True
    then have "j = i \<or> j < i" by auto
    then show ?thesis using sorted_wrt_less_nth [OF srt _ i, of j] j by auto
  next
    case False
    then have "Suc i \<le> j" by simp
    then have "Suc i = j \<or> Suc i < j" by auto
    then have "bs ! Suc i \<le> bs ! j"
      using sorted_wrt_less_nth [OF srt _ j(1), of "Suc i"] by auto
    moreover have "t < bs ! Suc i" using nxt \<open>Suc i \<le> j\<close> j(1) by simp
    ultimately show ?thesis using bt j by simp
  qed
qed

lemma locate_sorted:
  assumes srt: "sorted_wrt (<) bs" and ne: "bs \<noteq> []"
  shows "\<exists>i < length bs. dateBinarySearch t (map Some bs) = Some (Some (bs ! i), i) \<and>
           (if t < bs ! 0 then i = 0
            else bs ! i \<le> t \<and> (\<forall>b \<in> set bs. b \<le> t \<longrightarrow> b \<le> bs ! i))"
proof (cases "t < bs ! 0")
  case True
  with ne show ?thesis
    by (auto simp: dateBinarySearch_def intro!: exI [of _ 0])
next
  case False
  let ?i = "bsearch t (map Some bs) 0 (length bs)"
  from ne have len: "0 < length bs" by simp
  from bsearch_range [OF len] have i: "?i < length bs" by simp
  from False have "bs ! 0 \<le> t" by simp
  from bsearch_bracket [OF len _ this] have
    br: "bs ! ?i \<le> t" "Suc ?i < length bs \<longrightarrow> t < bs ! Suc ?i" by simp_all
  have "dateBinarySearch t (map Some bs) = Some (Some (bs ! ?i), ?i)"
    using ne False i len by (simp add: dateBinarySearch_def)
  moreover have "\<forall>b \<in> set bs. b \<le> t \<longrightarrow> b \<le> bs ! ?i"
    using greatest_below [OF srt i br] by blast
  ultimately show ?thesis using i br(1) False by auto
qed

lemma locate_index: "dateBinarySearch t fs = Some (b, i) \<Longrightarrow> i < length fs \<and> b = fs ! i"
proof -
  assume a: "dateBinarySearch t fs = Some (b, i)"
  then have ne: "fs \<noteq> []" by (auto simp: dateBinarySearch_def)
  then have "bsearch t fs 0 (length fs) < length fs"
    using bsearch_range [of 0 "length fs"] by simp
  with a ne show ?thesis by (auto simp: dateBinarySearch_def split: if_splits)
qed

lemma sorted_first_least:
  "sorted_wrt (<) (bs :: int list) \<Longrightarrow> b \<in> set bs \<Longrightarrow> bs ! 0 \<le> b"
  by (cases bs) auto

text \<open>A fragment's own timestamp is located at that fragment.\<close>

lemma locate_boundary:
  assumes srt: "sorted_wrt (<) bs" and b: "b \<in> set bs"
  shows "\<exists>i < length bs. dateBinarySearch b (map Some bs) = Some (Some b, i)"
proof -
  from b have ne: "bs \<noteq> []" by auto
  from locate_sorted [OF srt ne, of b] obtain i where
    i: "i < length bs" "dateBinarySearch b (map Some bs) = Some (Some (bs ! i), i)"
       "if b < bs ! 0 then i = 0 else bs ! i \<le> b \<and> (\<forall>b' \<in> set bs. b' \<le> b \<longrightarrow> b' \<le> bs ! i)"
    by blast
  from sorted_first_least [OF srt b] have "\<not> b < bs ! 0" by simp
  with i(3) b have "bs ! i = b" by auto
  with i(1,2) show ?thesis by auto
qed

section \<open>Metadata and the fragments handler\<close>

lemma createMetadataQuads_ok:
  "index \<le> int (length dir) \<Longrightarrow>
     createMetadataQuads c dir subj index =
       Inr (searchTemplate c subj @ licenseQuads c subj @
            (if index > 0 then [previousQuad c subj (fragmentName (dir ! nat (index - 1)))]
             else []))"
  by (auto simp: createMetadataQuads_def Let_def)

lemma createMetadata_ok:
  "index \<le> int (length dir) \<Longrightarrow> \<exists>m. createMetadata x c dir subj index = Inr m"
  by (simp add: createMetadata_def createMetadataQuads_ok)

text \<open>The outcome of the fragments handler once the query time is a fragment's own time.\<close>

lemma fragmentsHandler_exact:
  assumes valid: "newDate x time = Some t"
    and loc: "dateBinarySearch t (map (\<lambda>f. newDate x (Some (fragmentName f))) dir) =
                Some (Some t, i)"
  shows "fragmentsHandler x c s dir now time = Inl Rejected \<or>
         (\<exists>r. fragmentsHandler x c s dir now time = Inr r \<and> status r = 200 \<and>
              headers r ''Cache-Control'' =
                Some (if i = length dir - 1 then cacheNever else cacheImmutable))"
proof -
  from locate_index [OF loc] have i: "i < length dir" by simp
  then have "int i \<le> int (length dir)" by simp
  from createMetadata_ok [OF this] obtain m where
    m: "createMetadata x c dir (baseUri c @ ''?time='' @ toISOString x t) (int i) = Inr m"
    by blast
  have pol: "(int i < int (length dir) - 1) = (i \<noteq> length dir - 1)" using i by auto
  show ?thesis
  proof (cases "getTriplesFromFile x (fragmentsPath c @ ''/'' @ toISOString x t @ ''.trig'')")
    case None
    with valid loc show ?thesis by (simp add: fragmentsHandler_def)
  next
    case (Some p)
    obtain pf ft where p: "p = (pf, ft)" by (cases p)
    from valid loc Some m pol show ?thesis
      by (simp add: fragmentsHandler_def p getFragmentsCount_def corsResponse_def)
  qed
qed

lemma fragmentsHandler_other:
  assumes valid: "newDate x time = Some t"
    and loc: "dateBinarySearch t (map (\<lambda>f. newDate x (Some (fragmentName f))) dir) =
                Some (Some b, i)"
    and neq: "t \<noteq> b"
  shows "fragmentsHandler x c s dir now time =
           Inr (redirect corsResponse (fragmentsUrl c (toISOString x b)))"
  using assms by (simp add: fragmentsHandler_def)

text \<open>
  Every response of the fragments handler that is not a redirect is for a valid query
  time that is the located fragment's own time, and its \<open>Cache-Control\<close> field is
  \<open>cacheNever\<close> when the located position is the last one of the listing and
  \<open>cacheImmutable\<close> otherwise.
\<close>

lemma cache_policy_by_position:
  assumes "fragmentsHandler x c s dir now time = Inr r" and "status r \<noteq> 302"
  shows "\<exists>t i. newDate x time = Some t \<and>
           dateBinarySearch t (map (\<lambda>f. newDate x (Some (fragmentName f))) dir) =
             Some (Some t, i) \<and>
           i < length dir \<and>
           headers r ''Cache-Control'' =
             Some (if i = length dir - 1 then cacheNever else cacheImmutable)"
proof (cases "newDate x time")
  case None
  with assms show ?thesis by (auto simp: fragmentsHandler_def redirect_def)
next
  case (Some t)
  let ?fs = "map (\<lambda>f. newDate x (Some (fragmentName f))) dir"
  show ?thesis
  proof (cases "dateBinarySearch t ?fs")
    case None
    with Some assms show ?thesis by (simp add: fragmentsHandler_def)
  next
    case loc: (Some p)
    obtain b i where p: "p = (b, i)" by (cases p)
    show ?thesis
    proof (cases "Some t = b")
      case True
      with loc p have l: "dateBinarySearch t ?fs = Some (Some t, i)" by simp
      from locate_index [OF l] have "i < length dir" by simp
      with fragmentsHandler_exact [OF Some l, of c s now] assms(1) Some l show ?thesis by auto
    next
      case False
      with Some loc p assms show ?thesis
        by (auto simp: fragmentsHandler_def redirect_def split: option.splits)
    qed
  qed
qed

lemma sample_parsed:
  "map (\<lambda>f. newDate sample_ext (Some (fragmentName f))) sample_dir = map Some [0, 1000, 2000]"
  by (simp add: sample_defs name_defs)

section \<open>The claims\<close>

text \<open>
  Claim C1. The claim: whenever processing a record makes the window longer than
  \<open>latestWindowsize\<close>, the entry removed and handed to \<open>storeData\<close> is the one inserted
  earliest, the head of the window. The code removes with \<open>pop\<close>, which takes the
  entry inserted last. With a window of size 1, after the records \<open>a\<close> (time 0) and
  \<open>b\<close> (time 1000) the window still holds \<open>a\<close>, and it is \<open>b\<close> whose append was issued,
  to a fragment named by the time of \<open>b\<close>; when that append has completed, \<open>b\<close> is in
  that file and nothing was written under the time of \<open>a\<close>.
\<close>

theorem eviction_pops_newest:
  "latest (onData sample_ext sample_cfg newRawData [''a'', ''b'']) =
     [\<lparr>data = ''a'', triples = [], triplesTrig = [], gat = Some 0\<rparr>] \<and>
   pending (onData sample_ext sample_cfg newRawData [''a'', ''b'']) =
     [(''f/1970-01-01T00:00:01.000Z.trig'', ''b'')] \<and>
   files (storeData_resume (onData sample_ext sample_cfg newRawData [''a'', ''b'']) 0)
     ''f/1970-01-01T00:00:01.000Z.trig'' = Some ''b'' \<and>
   files (storeData_resume (onData sample_ext sample_cfg newRawData [''a'', ''b'']) 0)
     ''f/1970-01-01T00:00:00.000Z.trig'' = None"
  by (simp add: sample_defs init_defs)

text \<open>
  Claim C2. For every schedule of records and completed appends on a new instance
  (the batch \<open>onData ds\<close> is the schedule \<open>map Arrive ds\<close>), the window holds at most
  \<open>latestWindowsize\<close> entries once \<open>init\<close> has processed a record, and at most one
  more while the next record is processed: after the push (line 62), after the
  notification (line 70), after the eviction (line 75) and at the end of \<open>init\<close>.
\<close>

theorem window_bound:
  "length (latest (run x c (newRawData\<lparr>staticTriples := st\<rparr>) evs)) \<le> latestWindowsize c \<and>
   length (latest (onData x c (newRawData\<lparr>staticTriples := st\<rparr>) ds)) \<le> latestWindowsize c \<and>
   length (latest (windowPush (run x c (newRawData\<lparr>staticTriples := st\<rparr>) evs) e))
     \<le> latestWindowsize c + 1 \<and>
   length (latest (notifySubscribers c
       (windowPush (run x c (newRawData\<lparr>staticTriples := st\<rparr>) evs) e) d))
     \<le> latestWindowsize c + 1 \<and>
   length (latest (evictIfFull x c (notifySubscribers c
       (windowPush (run x c (newRawData\<lparr>staticTriples := st\<rparr>) evs) e) d)))
     \<le> latestWindowsize c \<and>
   length (latest (rebuildLatestTrig (evictIfFull x c (notifySubscribers c
       (windowPush (run x c (newRawData\<lparr>staticTriples := st\<rparr>) evs) e) d))))
     \<le> latestWindowsize c"
proof -
  let ?s = "run x c (newRawData\<lparr>staticTriples := st\<rparr>) evs"
  have s0: "length (latest (newRawData\<lparr>staticTriples := st\<rparr>)) \<le> latestWindowsize c"
    by (simp add: newRawData_def)
  then have b: "length (latest ?s) \<le> latestWindowsize c"
    by (rule run_bound)
  from s0 have
    "length (latest (onData x c (newRawData\<lparr>staticTriples := st\<rparr>) ds)) \<le> latestWindowsize c"
    unfolding onData_def by (rule run_bound)
  with b show ?thesis
    by (simp add: windowPush_def notifySubscribers_latest evictIfFull_latest
          rebuildLatestTrig_def)
qed

text \<open>
  Claim C3. The claim: a call of \<open>storeData\<close> starts a new fragment if and only if no
  fragment is open or the byte count of the open fragment exceeds \<open>maxFileSize\<close>, and
  otherwise appends to the open fragment. The code tests the byte counter, which it
  increments only after the awaited append (line 179), and \<open>init\<close> does not await
  \<open>storeData\<close>. With a window of size 1 and a maximum of 10 bytes, the batch \<open>a\<close>,
  \<open>b\<close>, \<open>c\<close> evicts \<open>b\<close> and then \<open>c\<close>. When \<open>storeData\<close> is called for \<open>c\<close>, the
  fragment named by the time of \<open>b\<close> is open and the append of \<open>b\<close> is pending, so the
  counter is still 0: the call starts a second fragment, named by the time of \<open>c\<close>. When
  both appends have completed there are two files, one with \<open>b\<close> and one with \<open>c\<close>, and
  the counter is 2.
\<close>

theorem overlapping_store_rotates:
  "lastFragment (onData sample_ext sample_cfg newRawData [''a'', ''b'']) =
     Some ''f/1970-01-01T00:00:01.000Z.trig'' \<and>
   byteCounter (onData sample_ext sample_cfg newRawData [''a'', ''b'']) = 0 \<and>
   maxFileSize sample_cfg = 10 \<and>
   pending (onData sample_ext sample_cfg newRawData [''a'', ''b'']) =
     [(''f/1970-01-01T00:00:01.000Z.trig'', ''b'')] \<and>
   lastFragment (onData sample_ext sample_cfg newRawData [''a'', ''b'', ''c'']) =
     Some ''f/1970-01-01T00:00:02.000Z.trig'' \<and>
   pending (onData sample_ext sample_cfg newRawData [''a'', ''b'', ''c'']) =
     [(''f/1970-01-01T00:00:01.000Z.trig'', ''b''),
      (''f/1970-01-01T00:00:02.000Z.trig'', ''c'')] \<and>
   files (run sample_ext sample_cfg newRawData
       [Arrive ''a'', Arrive ''b'', Arrive ''c'', Written 0, Written 0])
     ''f/1970-01-01T00:00:01.000Z.trig'' = Some ''b'' \<and>
   files (run sample_ext sample_cfg newRawData
       [Arrive ''a'', Arrive ''b'', Arrive ''c'', Written 0, Written 0])
     ''f/1970-01-01T00:00:02.000Z.trig'' = Some ''c'' \<and>
   byteCounter (run sample_ext sample_cfg newRawData
       [Arrive ''a'', Arrive ''b'', Arrive ''c'', Written 0, Written 0]) = 2"
  by (simp add: sample_defs init_defs)

text \<open>
  Claim C4. For a query time \<open>t\<close> and fragment boundary times in strictly ascending
  order, at least one, the locate operation returns the largest boundary time that is
  at most \<open>t\<close>, together with its zero-based position; when \<open>t\<close> is before the first
  boundary time it returns the first one, with position 0.
\<close>

theorem locate_correct:
  assumes "sorted_wrt (<) bs" and "bs \<noteq> []"
  shows "\<exists>i < length bs. dateBinarySearch t (map Some bs) = Some (Some (bs ! i), i) \<and>
           (if t < bs ! 0 then i = 0
            else bs ! i \<le> t \<and> (\<forall>b \<in> set bs. b \<le> t \<longrightarrow> b \<le> bs ! i))"
  using assms by (rule locate_sorted)

theorem locate_correct_witness:
  "sorted_wrt (<) [0, 1000, 2000 :: int] \<and> [0, 1000, 2000 :: int] \<noteq> [] \<and>
   dateBinarySearch 1500 (map Some [0, 1000, 2000]) = Some (Some 1000, 1) \<and>
   dateBinarySearch (- 5) (map Some [0, 1000, 2000]) = Some (Some 0, 0)"
proof -
  have h: "sorted_wrt (<) [0, 1000, 2000 :: int]" "[0, 1000, 2000 :: int] \<noteq> []" by simp_all
  from locate_correct [OF h, of 1500] locate_correct [OF h, of "- 5"] h
  show ?thesis by (simp add: dateBinarySearch_def bsearch.simps)
qed

text \<open>
  Claim C5. Let the names in the fragment directory parse to strictly ascending
  timestamps, at least one, each of which the \<open>Date\<close> constructor reads back from its
  ISO string. Then for every valid query time \<open>t\<close> the located fragment has a timestamp
  \<open>b\<close> of the directory; when \<open>t\<close> differs from \<open>b\<close> the fragments handler answers with
  a redirect (302) to the fragments URL of \<open>b\<close>; and a request for the time \<open>b\<close> itself
  is not answered with a redirect.
\<close>

theorem canonical_redirect_idempotent:
  assumes valid: "newDate x time = Some t"
    and parsed: "map (\<lambda>f. newDate x (Some (fragmentName f))) dir = map Some bs"
    and srt: "sorted_wrt (<) bs" and ne: "bs \<noteq> []"
    and rt: "\<forall>b \<in> set bs. newDate x (Some (toISOString x b)) = Some b"
  shows "\<exists>b i. dateBinarySearch t (map Some bs) = Some (Some b, i) \<and> b \<in> set bs \<and>
           (t \<noteq> b \<longrightarrow>
              fragmentsHandler x c s dir now time =
                Inr (redirect corsResponse (fragmentsUrl c (toISOString x b))) \<and>
              isRedirect (fragmentsHandler x c s dir now time)) \<and>
           \<not> isRedirect (fragmentsHandler x c s dir now' (Some (toISOString x b)))"
proof -
  from locate_sorted [OF srt ne, of t] obtain i where
    i: "i < length bs" "dateBinarySearch t (map Some bs) = Some (Some (bs ! i), i)" by blast
  let ?b = "bs ! i"
  from i(1) have mem: "?b \<in> set bs" by simp
  have red: "t \<noteq> ?b \<longrightarrow>
      fragmentsHandler x c s dir now time =
        Inr (redirect corsResponse (fragmentsUrl c (toISOString x ?b))) \<and>
      isRedirect (fragmentsHandler x c s dir now time)"
  proof
    assume "t \<noteq> ?b"
    from fragmentsHandler_other [OF valid _ this, of dir i c s now] i(2) parsed
    show "fragmentsHandler x c s dir now time =
        Inr (redirect corsResponse (fragmentsUrl c (toISOString x ?b))) \<and>
      isRedirect (fragmentsHandler x c s dir now time)"
      by (simp add: isRedirect_def redirect_def)
  qed
  from rt mem have v2: "newDate x (Some (toISOString x ?b)) = Some ?b" by blast
  from locate_boundary [OF srt mem] obtain j where
    "dateBinarySearch ?b (map Some bs) = Some (Some ?b, j)" by blast
  with parsed have
    "dateBinarySearch ?b (map (\<lambda>f. newDate x (Some (fragmentName f))) dir) = Some (Some ?b, j)"
    by simp
  from fragmentsHandler_exact [OF v2 this, of c s now']
  have "\<not> isRedirect (fragmentsHandler x c s dir now' (Some (toISOString x ?b)))"
    by (auto simp: isRedirect_def)
  with i(2) mem red show ?thesis by blast
qed

theorem canonical_redirect_idempotent_witness:
  "newDate sample_ext (Some ''1970-01-01T00:00:01.500Z'') = Some 1500 \<and>
   map (\<lambda>f. newDate sample_ext (Some (fragmentName f))) sample_dir = map Some [0, 1000, 2000] \<and>
   sorted_wrt (<) [0, 1000, 2000 :: int] \<and> [0, 1000, 2000 :: int] \<noteq> [] \<and>
   newDate sample_ext (Some (toISOString sample_ext 1000)) = Some 1000 \<and>
   fragmentsHandler sample_ext sample_cfg newRawData sample_dir 3000
       (Some ''1970-01-01T00:00:01.500Z'') =
     Inr \<lparr>status = 302,
          headers = [''Access-Control-Allow-Origin'' \<mapsto> ''*'',
                     ''Location'' \<mapsto> ''/s/fragments?time=1970-01-01T00:00:01.000Z''],
          body = None\<rparr> \<and>
   isRedirect (fragmentsHandler sample_ext sample_cfg newRawData sample_dir 3000
       (Some ''1970-01-01T00:00:01.000Z'')) = False"
proof -
  have v: "newDate sample_ext (Some ''1970-01-01T00:00:01.500Z'') = Some 1500"
    by (simp add: sample_defs)
  have s: "sorted_wrt (<) [0, 1000, 2000 :: int]" "[0, 1000, 2000 :: int] \<noteq> []" by simp_all
  have rt: "\<forall>b \<in> set [0, 1000, 2000].
              newDate sample_ext (Some (toISOString sample_ext b)) = Some b"
    by (simp add: sample_defs)
  from canonical_redirect_idempotent [OF v sample_parsed s rt, of sample_cfg newRawData 3000 3000]
  have "isRedirect (fragmentsHandler sample_ext sample_cfg newRawData sample_dir 3000
       (Some ''1970-01-01T00:00:01.000Z'')) = False \<and>
     fragmentsHandler sample_ext sample_cfg newRawData sample_dir 3000
       (Some ''1970-01-01T00:00:01.500Z'') =
     Inr \<lparr>status = 302,
          headers = [''Access-Control-Allow-Origin'' \<mapsto> ''*'',
                     ''Location'' \<mapsto> ''/s/fragments?time=1970-01-01T00:00:01.000Z''],
          body = None\<rparr>"
    by (simp add: dateBinarySearch_def bsearch.simps)
       (simp add: sample_ext_def sample_iso_def sample_cfg_def redirect_def corsResponse_def
          fragmentsUrl_def)
  moreover from rt have "newDate sample_ext (Some (toISOString sample_ext 1000)) = Some 1000"
    by simp
  ultimately show ?thesis using v sample_parsed s by blast
qed

text \<open>
  Claim C6. The claim: two requests for the latest data in a row, with nothing ingested
  in between, get the same ETag and the same body, the second one from the cached
  response. In the code the branch for a validator equal to the stored one evaluates
  \<open>prevResponse\<close>, which is not defined. After the record \<open>a\<close>, a first request
  without \<open>If-None-Match\<close> is answered with status 200 and the ETag \<open>W/"a"\<close>, and stores
  that validator and the body; the same request again raises a ReferenceError.
\<close>

theorem latest_repeat_fails:
  "latestHandler sample_ext sample_cfg
       (onData sample_ext sample_cfg newRawData [''a'']) sample_dir None =
     Inr (\<lparr>status = 200,
           headers = [''Access-Control-Allow-Origin'' \<mapsto> ''*'',
                      ''ETag'' \<mapsto> ''W/'' @ [CHR 0x22] @ ''a'' @ [CHR 0x22],
                      ''Last-Modified'' \<mapsto> [],
                      ''Content-Type'' \<mapsto> ''application/trig''],
           body = Some [CHR 0x0A, CHR 0x0A, CHR 0x0A]\<rparr>,
          (onData sample_ext sample_cfg newRawData [''a''])
            \<lparr>prevResponseBody := [CHR 0x0A, CHR 0x0A, CHR 0x0A],
             prevEtag := ''W/'' @ [CHR 0x22] @ ''a'' @ [CHR 0x22]\<rparr>) \<and>
   latestHandler sample_ext sample_cfg
       ((onData sample_ext sample_cfg newRawData [''a''])
            \<lparr>prevResponseBody := [CHR 0x0A, CHR 0x0A, CHR 0x0A],
             prevEtag := ''W/'' @ [CHR 0x22] @ ''a'' @ [CHR 0x22]\<rparr>) sample_dir None =
     Inl ReferenceError"
  unfolding sample_a
  by (simp add: sample_defs name_defs latestHandler_def createMetadata_def
        createMetadataQuads_def corsResponse_def newRawData_def Let_def)

text \<open>
  Claim C7. The claim: a response of the fragments handler that is not a redirect is
  marked non-cacheable (\<open>no-cache, no-store, must-revalidate\<close>) when the located
  position is the last one of the fragment listing, and otherwise permanently cacheable,
  with a long \<open>max-age\<close> and the directive \<open>immutable\<close>. The handler selects between
  the two by the position as the claim says (lemma \<open>cache_policy_by_position\<close>), but
  the field it sets for the other positions spells the directive \<open>inmutable\<close>
  (line 162). With three fragments, the request for the second one gets
  \<open>public, max-age=31536000, inmutable\<close>, which is not the field with \<open>immutable\<close>;
  the request for the third gets \<open>no-cache, no-store, must-revalidate\<close>.
\<close>

theorem cache_header_misspelt:
  "fragmentsHandler sample_ext sample_cfg newRawData sample_dir 3000
       (Some ''1970-01-01T00:00:01.000Z'') =
     Inr \<lparr>status = 200,
          headers = [''Access-Control-Allow-Origin'' \<mapsto> ''*'',
                     ''Content-Type'' \<mapsto> ''application/trig'',
                     ''Cache-Control'' \<mapsto> ''public, max-age=31536000, inmutable''],
          body = Some [CHR 0x0A, CHR 0x0A]\<rparr> \<and>
   ''public, max-age=31536000, inmutable'' \<noteq> ''public, max-age=31536000, immutable'' \<and>
   fragmentsHandler sample_ext sample_cfg newRawData sample_dir 3000
       (Some ''1970-01-01T00:00:02.000Z'') =
     Inr \<lparr>status = 200,
          headers = [''Access-Control-Allow-Origin'' \<mapsto> ''*'',
                     ''Content-Type'' \<mapsto> ''application/trig'',
                     ''Cache-Control'' \<mapsto> ''no-cache, no-store, must-revalidate''],
          body = Some [CHR 0x0A, CHR 0x0A]\<rparr>"
  by (simp add: sample_defs name_defs handler_defs newRawData_def)

text \<open>
  Claim C8. For a position \<open>index\<close> up to the length of the fragment listing (the
  positions of the fragments, and the length itself for the latest data),
  \<open>createMetadata\<close> succeeds, and among the quads it formats there is one with the
  predicate \<open>hydra:previous\<close> if and only if \<open>index > 0\<close>; such a quad has the
  requested resource as its subject and, as its object, the fragments URL of the name at
  position \<open>index - 1\<close> of the listing.
\<close>

theorem previous_link:
  assumes "index \<le> int (length dir)"
  shows "\<exists>quads. createMetadataQuads c dir subj index = Inr quads \<and>
           createMetadata x c dir subj index = Inr (formatTriples x [] quads) \<and>
           ((\<exists>q \<in> set quads. predicate q = NamedNode (hydra ''previous'')) \<longleftrightarrow> index > 0) \<and>
           (\<forall>q \<in> set quads. predicate q = NamedNode (hydra ''previous'') \<longrightarrow>
              subject q = NamedNode subj \<and>
              object q = NamedNode (serverUrl c @ name c @ ''/fragments?time=''
                           @ fragmentName (dir ! nat (index - 1))))"
  using assms
  by (auto simp: createMetadata_def createMetadataQuads_ok searchTemplate_def licenseQuads_def
        previousQuad_def hydra_def rdfType_def)

theorem previous_link_witness:
  "(2::int) \<le> int (length sample_dir) \<and> (0::int) \<le> int (length sample_dir) \<and>
   (case createMetadataQuads sample_cfg sample_dir ''u'' 2 of
      Inl e \<Rightarrow> []
    | Inr quads \<Rightarrow> filter (\<lambda>q. predicate q = NamedNode (hydra ''previous'')) quads) =
     [Quad (NamedNode ''u'') (NamedNode ''http://www.w3.org/ns/hydra/core#previous'')
        (NamedNode ''http://h/s/fragments?time=1970-01-01T00:00:01.000Z'')
        (NamedNode ''#Metadata'')] \<and>
   (case createMetadataQuads sample_cfg sample_dir ''u'' 0 of
      Inl e \<Rightarrow> None
    | Inr quads \<Rightarrow> Some (filter (\<lambda>q. predicate q = NamedNode (hydra ''previous'')) quads)) =
     Some []"
proof -
  have h: "(2::int) \<le> int (length sample_dir)" "(0::int) \<le> int (length sample_dir)"
    by (simp_all add: sample_dir_def)
  from previous_link [OF h(1), of sample_cfg "''u''" sample_ext]
    previous_link [OF h(2), of sample_cfg "''u''" sample_ext] h
  show ?thesis
    by (simp add: sample_defs name_defs createMetadataQuads_def searchTemplate_def
          licenseQuads_def previousQuad_def hydra_def rdfType_def metadataGraph_def)
qed

text \<open>
  Claim C9. When the \<open>time\<close> parameter of a request for a fragment is missing or does
  not parse to a valid date, the handler does not fail: the response is a redirect
  (302) to the fragments URL with the current time. The response is the same whatever
  the fragment directory and the state of the instance are, neither of which the handler
  reads on this path, and the handler changes no state.
\<close>

theorem invalid_time_redirects_to_now:
  assumes "newDate x time = None"
  shows "fragmentsHandler x c s dir now time =
           Inr \<lparr>status = 302,
                headers = [''Access-Control-Allow-Origin'' \<mapsto> ''*'',
                           ''Location'' \<mapsto>
                              ''/'' @ name c @ ''/fragments?time='' @ toISOString x now],
                body = None\<rparr>"
  using assms by (simp add: fragmentsHandler_def redirect_def corsResponse_def fragmentsUrl_def)

theorem invalid_time_redirects_to_now_witness:
  "newDate sample_ext None = None \<and>
   newDate sample_ext (Some ''yesterday'') = None \<and>
   fragmentsHandler sample_ext sample_cfg newRawData sample_dir 3000 None =
     Inr \<lparr>status = 302,
          headers = [''Access-Control-Allow-Origin'' \<mapsto> ''*'',
                     ''Location'' \<mapsto> ''/s/fragments?time=1970-01-01T00:00:03.000Z''],
          body = None\<rparr> \<and>
   fragmentsHandler sample_ext sample_cfg newRawData [] 3000 (Some ''yesterday'') =
     Inr \<lparr>status = 302,
          headers = [''Access-Control-Allow-Origin'' \<mapsto> ''*'',
                     ''Location'' \<mapsto> ''/s/fragments?time=1970-01-01T00:00:03.000Z''],
          body = None\<rparr>"
proof -
  have h: "newDate sample_ext None = None" "newDate sample_ext (Some ''yesterday'') = None"
    by (simp_all add: sample_defs)
  from invalid_time_redirects_to_now [OF h(1), of sample_cfg newRawData sample_dir 3000]
    invalid_time_redirects_to_now [OF h(2), of sample_cfg newRawData "[]" 3000] h
  show ?thesis by (simp add: sample_ext_def sample_cfg_def sample_iso_def)
qed

text \<open>
  Claim C10. Once the window holds \<open>latestWindowsize\<close> entries, nothing that happens
  later changes it, whatever the schedule of records and completed appends (the batch
  \<open>onData ds\<close> is the schedule \<open>map Arrive ds\<close>): every further \<open>init\<close> that gets as far
  as the window hands the record it was called with to \<open>storeData\<close> (its payload and its
  own time), on a state whose window is the one from before, so the entries that filled
  the window stay in it.
\<close>

theorem full_window_frozen:
  assumes "length (latest s) = latestWindowsize c"
  shows "latest (run x c s evs) = latest s \<and>
         latest (onData x c s ds) = latest s \<and>
         (\<forall>d g qs. getGeneratedAtTimeValue x d = Some g \<longrightarrow>
            getTriplesFromString x d = Some qs \<longrightarrow>
            init x c s d =
              Inr (rebuildLatestTrig (storeDetached x c (notifySubscribers c s d) d g)))"
  using assms by (simp add: run_full onData_def init_full)

theorem full_window_frozen_witness:
  "length (latest (onData sample_ext sample_cfg newRawData [''a''])) =
     latestWindowsize sample_cfg \<and>
   latest (onData sample_ext sample_cfg (onData sample_ext sample_cfg newRawData [''a''])
       [''b'', ''c'']) = [\<lparr>data = ''a'', triples = [], triplesTrig = [], gat = Some 0\<rparr>] \<and>
   latest (run sample_ext sample_cfg (onData sample_ext sample_cfg newRawData [''a''])
       [Arrive ''b'', Written 0, Arrive ''c'']) =
     [\<lparr>data = ''a'', triples = [], triplesTrig = [], gat = Some 0\<rparr>] \<and>
   getGeneratedAtTimeValue sample_ext ''b'' = Some (Some 1000) \<and>
   getTriplesFromString sample_ext ''b'' = Some [] \<and>
   (case init sample_ext sample_cfg (onData sample_ext sample_cfg newRawData [''a'']) ''b'' of
      Inl e \<Rightarrow> []
    | Inr s' \<Rightarrow> pending s') = [(''f/1970-01-01T00:00:01.000Z.trig'', ''b'')]"
proof -
  have h: "length (latest (onData sample_ext sample_cfg newRawData [''a''])) =
             latestWindowsize sample_cfg"
    unfolding sample_a by (simp add: sample_cfg_def)
  have g: "getGeneratedAtTimeValue sample_ext ''b'' = Some (Some 1000)"
    "getTriplesFromString sample_ext ''b'' = Some []"
    by (simp_all add: sample_defs)
  from full_window_frozen [OF h, of sample_ext "[Arrive ''b'', Written 0, Arrive ''c'']"
      "[''b'', ''c'']"] g
  show ?thesis using h unfolding sample_a by (simp add: sample_defs init_defs)
qed

end
